theory Spec2Isabelle
  imports Main
begin

section \<open>HeteroNorm: the normalization layer of torch\_geometric/nn/norm/hetero\_norm.py\<close>

text \<open>
  The file defines one class, \<open>HeteroNorm\<close>, with a constructor and three methods.
  The embedding keeps what the Python does step by step:
  \<^item> an instance is a record of its attributes, each \<open>None\<close> until an assignment
    \<open>self.a = v\<close> has run, so that reading an attribute that was never assigned is the
    \<open>AttributeError\<close> of Python;
  \<^item> every \<open>raise\<close> and every failing lookup is a value of \<open>error\<close>;
  \<^item> the constructor passes the instance through and returns it together with its
    outcome, so that the attributes assigned before an exception stay visible;
  \<^item> the names that the module's global namespace binds are a parameter \<open>g\<close>: a global
    name is looked up when the statement runs, and an unbound one is a \<open>NameError\<close>;
  \<^item> objects and calls of the framework (tensors, \<open>Linear\<close>, \<open>ToHeteroLinear\<close>,
    \<open>torch.nn.functional.batch_norm\<close>, calling a module) are not computed: a call is
    the term naming the callee and the arguments it receives.
\<close>

subsection \<open>Exceptions\<close>

datatype error =
    ValueError string       \<comment> \<open>the message\<close>
  | NameError string        \<comment> \<open>the unbound name\<close>
  | AttributeError string   \<comment> \<open>the missing attribute\<close>
  | IndexError string       \<comment> \<open>the message\<close>

subsection \<open>Values of the framework\<close>

text \<open>A Python float, kept exactly as mantissa and binary exponent: \<open>m * 2 ^ e\<close>.\<close>

datatype pyfloat = PyFloat int int

text \<open>
  A tensor is its shape and its contents. Only the shape is inspected by this file
  (\<open>x.size(0)\<close>); the contents stay abstract.
\<close>

record 'd tensor =
  shape :: "nat list"
  payload :: 'd

text \<open>\<open>x.size(0)\<close>: the framework raises \<open>IndexError\<close> on a tensor without dimensions.\<close>

definition size0 :: "'d tensor \<Rightarrow> error + nat" where
  "size0 x = (case shape x of
                [] \<Rightarrow> Inl (IndexError ''Dimension specified as 0 but tensor has no dimensions'')
              | n # _ \<Rightarrow> Inr n)"

text \<open>
  \<open>Metadata\<close> is the pair of the node types and the edge types
  (source, relation, destination) of a heterogeneous graph.
\<close>

type_synonym metadata = "string list \<times> (string \<times> string \<times> string) list"

text \<open>The objects that line 45 builds: \<open>ToHeteroLinear(Linear(a, b), metadata)\<close>.\<close>

datatype linear = Linear int int

datatype to_hetero_linear = ToHeteroLinear linear metadata

text \<open>
  The object that the methods expect under \<open>self.module\<close>: a normalization module with
  the attributes that \<open>forward\<close> and \<open>__repr__\<close> read. The statistics and the affine
  parameters may be Python's \<open>None\<close>.
\<close>

record 'd norm_module =
  running_mean :: "'d tensor option"
  running_var :: "'d tensor option"
  weight :: "'d tensor option"
  bias :: "'d tensor option"
  eps :: pyfloat
  num_features :: int

text \<open>A call into the framework whose result the method returns.\<close>

datatype 'd ext_call =
    F_batch_norm "'d tensor" "'d tensor option" "'d tensor option"
                 "'d tensor option" "'d tensor option" bool pyfloat pyfloat
    \<comment> \<open>\<open>torch.nn.functional.batch_norm(input, running_mean, running_var, weight, bias,
        training, momentum, eps)\<close>\<close>
  | Module_call "'d norm_module" "'d tensor"
    \<comment> \<open>\<open>m(x)\<close>\<close>
  | Module_reset_parameters "'d norm_module"
    \<comment> \<open>\<open>m.reset_parameters()\<close>\<close>

subsection \<open>The instance\<close>

text \<open>
  The attributes that the class assigns or reads. \<open>None\<close> is an attribute that has not
  been assigned.
\<close>

record 'd hetero_norm =
  in_channels :: "int option"
  hetero_linear :: "to_hetero_linear option"
  allow_single_element :: "bool option"
  module :: "'d norm_module option"

text \<open>The instance as \<open>super().__init__()\<close> (line 38) leaves it: none of them assigned.\<close>

definition fresh :: "'d hetero_norm" where
  "fresh = \<lparr>in_channels = None, hetero_linear = None,
            allow_single_element = None, module = None\<rparr>"

text \<open>Reading an attribute: \<open>self.a\<close>.\<close>

definition getattr :: "'a option \<Rightarrow> string \<Rightarrow> error + 'a" where
  "getattr field name = (case field of None \<Rightarrow> Inl (AttributeError name) | Some v \<Rightarrow> Inr v)"

subsection \<open>Global names\<close>

text \<open>
  The names bound at module level by the file itself: its four imports (lines 1 to 4)
  and the class statement (line 7). Python's builtins, which are consulted last, hold
  \<open>super\<close> and \<open>ValueError\<close> and no \<open>Linear\<close>.
\<close>

definition module_namespace :: "string list" where
  "module_namespace = [''torch'', ''Tensor'', ''ToHeteroLinear'', ''Metadata'', ''HeteroNorm'']"

definition lookup_name :: "string list \<Rightarrow> string \<Rightarrow> error + unit" where
  "lookup_name g name = (if name \<in> set g then Inr () else Inl (NameError name))"

subsection \<open>\<open>str.lower\<close>\<close>

text \<open>
  Strings are modelled on the code points 0 to 255, one \<open>char\<close> each. On these,
  \<open>str.lower\<close> moves \<open>A\<close> to \<open>Z\<close> and the capital letters 0xC0 to 0xDE other than the
  multiplication sign 0xD7 up by 32 and leaves every other code point alone.
\<close>

definition lower_char :: "char \<Rightarrow> char" where
  "lower_char c =
     (let n = (of_char c :: nat)
      in if (65 \<le> n \<and> n \<le> 90) \<or> (192 \<le> n \<and> n \<le> 222 \<and> n \<noteq> 215)
         then char_of (n + 32) else c)"

definition lower :: "string \<Rightarrow> string" where
  "lower s = map lower_char s"

subsection \<open>\<open>HeteroNorm.__init__\<close> (lines 34 to 46)\<close>

definition norm_type_message :: string where
  \<open>norm_type_message =
     ''Please choose norm type from "BatchNorm", "InstanceNorm", "LayerNorm"''\<close>

definition single_element_message :: string where
  "single_element_message =
     [CHR 0x27] @ ''allow_single_element'' @ [CHR 0x27] @ '' requires '' @
     [CHR 0x27] @ ''track_running_stats'' @ [CHR 0x27] @ '' to be set to '' @
     [CHR 0x60] @ ''True'' @ [CHR 0x60]"

text \<open>
  The arguments in the order of the signature, after the namespace \<open>g\<close>; the last
  argument is \<open>self\<close> as line 38 leaves it. The result is the outcome and \<open>self\<close> as the
  constructor leaves it.
\<close>

definition HeteroNorm_init ::
  "string list \<Rightarrow> int \<Rightarrow> string \<Rightarrow> metadata \<Rightarrow> pyfloat \<Rightarrow> pyfloat \<Rightarrow> bool \<Rightarrow> bool \<Rightarrow> bool \<Rightarrow>
   'd hetero_norm \<Rightarrow> (error + unit) \<times> 'd hetero_norm" where
  "HeteroNorm_init g in_channels' norm_type metadata' eps' momentum affine
       track_running_stats allow_single_element' self =
     (if \<not> (lower norm_type \<in> set [''batchnorm'', ''instancenorm'', ''layernorm''])
      then (Inl (ValueError norm_type_message), self)
      else if allow_single_element' \<and> \<not> track_running_stats
      then (Inl (ValueError single_element_message), self)
      else
        let self1 = self\<lparr>in_channels := Some in_channels'\<rparr> in
        (case lookup_name g ''ToHeteroLinear'' of
           Inl e \<Rightarrow> (Inl e, self1)
         | Inr _ \<Rightarrow>
        (case lookup_name g ''Linear'' of
           Inl e \<Rightarrow> (Inl e, self1)
         | Inr _ \<Rightarrow>
        (case getattr (in_channels self1) ''in_channels'' of
           Inl e \<Rightarrow> (Inl e, self1)
         | Inr c \<Rightarrow>
        let self2 = self1\<lparr>hetero_linear := Some (ToHeteroLinear (Linear c c) metadata')\<rparr>;
            self3 = self2\<lparr>allow_single_element := Some allow_single_element'\<rparr>
        in (Inr (), self3)))))"

subsection \<open>\<open>HeteroNorm.reset_parameters\<close> (lines 48 to 50)\<close>

definition reset_parameters :: "'d hetero_norm \<Rightarrow> error + 'd ext_call" where
  "reset_parameters self =
     (case getattr (module self) ''module'' of
        Inl e \<Rightarrow> Inl e
      | Inr m \<Rightarrow> Inr (Module_reset_parameters m))"

subsection \<open>\<open>HeteroNorm.forward\<close> (lines 52 to 68)\<close>

text \<open>
  The condition of line 57, \<open>self.allow_single_element and x.size(0) <= 1\<close>: the right
  operand is evaluated only when the left one is true.
\<close>

definition forward_guard :: "'d hetero_norm \<Rightarrow> 'd tensor \<Rightarrow> error + bool" where
  "forward_guard self x =
     (case getattr (allow_single_element self) ''allow_single_element'' of
        Inl e \<Rightarrow> Inl e
      | Inr a \<Rightarrow>
          if \<not> a then Inr False
          else (case size0 x of Inl e \<Rightarrow> Inl e | Inr n \<Rightarrow> Inr (n \<le> 1)))"

text \<open>
  Lines 58 to 67. The callee \<open>torch.nn.functional.batch_norm\<close> is evaluated first, then
  the arguments from left to right; all five reads of \<open>self.module\<close> fail alike.
\<close>

definition batch_norm_branch ::
  "string list \<Rightarrow> 'd hetero_norm \<Rightarrow> 'd tensor \<Rightarrow> error + 'd ext_call" where
  "batch_norm_branch g self x =
     (case lookup_name g ''torch'' of
        Inl e \<Rightarrow> Inl e
      | Inr _ \<Rightarrow>
     (case getattr (module self) ''module'' of
        Inl e \<Rightarrow> Inl e
      | Inr m \<Rightarrow>
          Inr (F_batch_norm x (running_mean m) (running_var m) (weight m) (bias m)
                 False (PyFloat 0 0) (eps m))))"

text \<open>Line 68: \<open>return self.module(x)\<close>.\<close>

definition module_branch :: "'d hetero_norm \<Rightarrow> 'd tensor \<Rightarrow> error + 'd ext_call" where
  "module_branch self x =
     (case getattr (module self) ''module'' of
        Inl e \<Rightarrow> Inl e
      | Inr m \<Rightarrow> Inr (Module_call m x))"

definition forward :: "string list \<Rightarrow> 'd hetero_norm \<Rightarrow> 'd tensor \<Rightarrow> error + 'd ext_call" where
  "forward g self x =
     (case forward_guard self x of
        Inl e \<Rightarrow> Inl e
      | Inr b \<Rightarrow> if b then batch_norm_branch g self x else module_branch self x)"

subsection \<open>\<open>HeteroNorm.__repr__\<close> (lines 70 to 71)\<close>

text \<open>\<open>str\<close> of an integer, as the f-string formats \<open>num_features\<close>.\<close>

fun digits :: "nat \<Rightarrow> string" where
  "digits n = (if n < 10 then [''0123456789'' ! n]
               else digits (n div 10) @ [''0123456789'' ! (n mod 10)])"

declare digits.simps [simp del]

definition str_int :: "int \<Rightarrow> string" where
  "str_int i = (if i < 0 then ''-'' @ digits (nat (- i)) else digits (nat i))"

definition repr :: "'d hetero_norm \<Rightarrow> error + string" where
  "repr self =
     (case getattr (module self) ''module'' of
        Inl e \<Rightarrow> Inl e
      | Inr m \<Rightarrow> Inr (''HeteroNorm'' @ ''('' @ str_int (num_features m) @ '')''))"

subsection \<open>Constants of the signature and example values\<close>

text \<open>The defaults of the signature: \<open>eps = 1e-5\<close> and \<open>momentum = 0.1\<close> as doubles.\<close>

definition default_eps :: pyfloat where
  "default_eps = PyFloat 5902958103587057 (- 69)"

definition default_momentum :: pyfloat where
  "default_momentum = PyFloat 3602879701896397 (- 55)"

definition example_metadata :: metadata where
  "example_metadata = ([''paper'', ''author''], [(''author'', ''writes'', ''paper'')])"

text \<open>A batch normalization module over four features, as an outside assignment to
  \<open>self.module\<close> could provide it.\<close>

definition example_module :: "unit norm_module" where
  "example_module =
     \<lparr>running_mean = Some \<lparr>shape = [4], payload = ()\<rparr>,
      running_var = Some \<lparr>shape = [4], payload = ()\<rparr>,
      weight = Some \<lparr>shape = [4], payload = ()\<rparr>,
      bias = Some \<lparr>shape = [4], payload = ()\<rparr>,
      eps = default_eps, num_features = 4\<rparr>"

text \<open>
  The instance that the constructor leaves for four channels and
  \<open>allow_single_element = True\<close> once every name of line 45 resolves.
\<close>

definition constructed :: "unit hetero_norm" where
  "constructed =
     \<lparr>in_channels = Some 4,
      hetero_linear = Some (ToHeteroLinear (Linear 4 4) example_metadata),
      allow_single_element = Some True, module = None\<rparr>"

subsection \<open>The words of the specification\<close>

text \<open>
  The arguments pass validation: the lower-cased \<open>norm_type\<close> is one of the three names,
  and \<open>allow_single_element\<close> is not requested without \<open>track_running_stats\<close>.
\<close>

definition passes_validation :: "string \<Rightarrow> bool \<Rightarrow> bool \<Rightarrow> bool" where
  "passes_validation norm_type track_running_stats allow_single_element' =
     (lower norm_type \<in> set [''batchnorm'', ''instancenorm'', ''layernorm''] \<and>
      \<not> (allow_single_element' \<and> \<not> track_running_stats))"

text \<open>
  \<open>s\<close> is a capitalization of the lower-case name: the same length, and each character
  is the letter of the name or the code point 32 below it, its capital.
\<close>

definition capitalization_of :: "string \<Rightarrow> string \<Rightarrow> bool" where
  "capitalization_of s name =
     list_all2 (\<lambda>a b. a = b \<or> (of_char a :: nat) + 32 = of_char b) s name"

section \<open>Properties\<close>

subsection \<open>Helper facts\<close>

lemma getattr_None: "getattr None name = Inl (AttributeError name)"
  by (simp add: getattr_def)

lemma getattr_Some: "getattr (Some v) name = Inr v"
  by (simp add: getattr_def)

lemma init_module_unchanged:
  "module (snd (HeteroNorm_init g c nt md e mo af trs ase self)) = module self"
  by (simp add: HeteroNorm_init_def Let_def getattr_Some split: sum.splits)

text \<open>The constructor when validation fails: the first failing check names the message.\<close>

lemma init_fails:
  "\<not> passes_validation nt trs ase \<Longrightarrow>
   HeteroNorm_init g c nt md e mo af trs ase self =
     (Inl (ValueError (if lower nt \<in> set [''batchnorm'', ''instancenorm'', ''layernorm'']
                       then single_element_message else norm_type_message)), self)"
  by (auto simp add: HeteroNorm_init_def passes_validation_def)

text \<open>The constructor when validation passes: the outcome depends on the namespace.\<close>

lemma init_passes:
  "passes_validation nt trs ase \<Longrightarrow>
   HeteroNorm_init g c nt md e mo af trs ase self =
     (if ''ToHeteroLinear'' \<in> set g \<and> ''Linear'' \<in> set g
      then (Inr (), self\<lparr>in_channels := Some c,
                          hetero_linear := Some (ToHeteroLinear (Linear c c) md),
                          allow_single_element := Some ase\<rparr>)
      else if ''ToHeteroLinear'' \<in> set g
      then (Inl (NameError ''Linear''), self\<lparr>in_channels := Some c\<rparr>)
      else (Inl (NameError ''ToHeteroLinear''), self\<lparr>in_channels := Some c\<rparr>))"
  by (simp add: HeteroNorm_init_def passes_validation_def Let_def lookup_name_def getattr_Some)

lemma lower_char_capital:
  assumes "97 \<le> (of_char b :: nat)" and "of_char b \<le> (122::nat)"
    and "a = b \<or> (of_char a :: nat) + 32 = of_char b"
  shows "lower_char a = b"
  using assms by (auto simp add: lower_char_def Let_def)

lemma lower_capitalization:
  assumes "capitalization_of s name"
    and "\<forall>b \<in> set name. 97 \<le> (of_char b :: nat) \<and> of_char b \<le> (122::nat)"
  shows "lower s = name"
  using assms unfolding capitalization_of_def lower_def
proof (induction s name rule: list_all2_induct)
  case Nil
  then show ?case by simp
next
  case (Cons a s b name)
  then show ?case by (simp add: lower_char_capital)
qed

lemma norm_names_lower_case:
  "name \<in> set [''batchnorm'', ''instancenorm'', ''layernorm''] \<Longrightarrow>
   \<forall>b \<in> set name. 97 \<le> (of_char b :: nat) \<and> of_char b \<le> (122::nat)"
  by auto

lemma messages_differ: "norm_type_message \<noteq> single_element_message"
  by (simp add: norm_type_message_def single_element_message_def)

lemma lower_BatchNorm: "lower ''BatchNorm'' = ''batchnorm''"
  by code_simp

lemma lower_LayerNORM: "lower ''LayerNORM'' = ''layernorm''"
  by code_simp

lemma lower_GroupNorm: "lower ''GroupNorm'' = ''groupnorm''"
  by code_simp

lemma init_constructed:
  "HeteroNorm_init (''Linear'' # module_namespace) 4 ''BatchNorm'' example_metadata
     default_eps default_momentum True True True fresh = (Inr (), constructed)"
  by (simp add: HeteroNorm_init_def lower_BatchNorm lookup_name_def module_namespace_def
      getattr_Some fresh_def constructed_def)

subsection \<open>Validation\<close>

text \<open>
  C3. The constructor raises \<open>ValueError\<close> exactly when the lower-cased \<open>norm_type\<close> is
  none of \<open>batchnorm\<close>, \<open>instancenorm\<close>, \<open>layernorm\<close>, or \<open>allow_single_element\<close> is
  true while \<open>track_running_stats\<close> is false. In particular the check of the name lets
  every capitalization of the three names through: for such a \<open>norm_type\<close> the
  constructor never raises the \<open>ValueError\<close> of line 40.
\<close>

theorem init_ValueError_iff:
  "((\<exists>msg. fst (HeteroNorm_init g c norm_type md e mo af track_running_stats ase self)
            = Inl (ValueError msg))
      \<longleftrightarrow> (lower norm_type \<notin> set [''batchnorm'', ''instancenorm'', ''layernorm'']
           \<or> (ase \<and> \<not> track_running_stats)))
   \<and> (capitalization_of norm_type name
        \<and> name \<in> set [''batchnorm'', ''instancenorm'', ''layernorm'']
      \<longrightarrow> fst (HeteroNorm_init g c norm_type md e mo af track_running_stats ase self)
            \<noteq> Inl (ValueError norm_type_message))"
proof (intro conjI impI)
  show "(\<exists>msg. fst (HeteroNorm_init g c norm_type md e mo af track_running_stats ase self)
            = Inl (ValueError msg))
      \<longleftrightarrow> (lower norm_type \<notin> set [''batchnorm'', ''instancenorm'', ''layernorm'']
           \<or> (ase \<and> \<not> track_running_stats))"
  proof (cases "passes_validation norm_type track_running_stats ase")
    case True
    from init_passes [OF True, of g c md e mo af self] True show ?thesis
      by (auto simp add: passes_validation_def)
  next
    case False
    from init_fails [OF False, of g c md e mo af self] False show ?thesis
      by (auto simp add: passes_validation_def)
  qed
next
  assume h: "capitalization_of norm_type name
        \<and> name \<in> set [''batchnorm'', ''instancenorm'', ''layernorm'']"
  then have "lower norm_type = name"
    using lower_capitalization norm_names_lower_case by blast
  with h have ok: "lower norm_type \<in> set [''batchnorm'', ''instancenorm'', ''layernorm'']"
    by simp
  show "fst (HeteroNorm_init g c norm_type md e mo af track_running_stats ase self)
            \<noteq> Inl (ValueError norm_type_message)"
  proof (cases "passes_validation norm_type track_running_stats ase")
    case True
    from init_passes [OF True, of g c md e mo af self] show ?thesis by auto
  next
    case False
    from init_fails [OF False, of g c md e mo af self] ok messages_differ show ?thesis
      by auto
  qed
qed

theorem init_ValueError_iff_witness:
  "capitalization_of ''LayerNORM'' ''layernorm''
   \<and> ''layernorm'' \<in> set [''batchnorm'', ''instancenorm'', ''layernorm'']
   \<and> fst (HeteroNorm_init module_namespace 8 ''LayerNORM'' example_metadata default_eps
             default_momentum True False True (fresh :: unit hetero_norm))
       = Inl (ValueError single_element_message)
   \<and> lower ''LayerNORM'' \<in> set [''batchnorm'', ''instancenorm'', ''layernorm'']"
proof -
  have c: "capitalization_of ''LayerNORM'' ''layernorm''"
    by (simp add: capitalization_of_def)
  have m: "''layernorm'' \<in> set [''batchnorm'', ''instancenorm'', ''layernorm'']"
    by simp
  have v: "fst (HeteroNorm_init module_namespace 8 ''LayerNORM'' example_metadata default_eps
             default_momentum True False True (fresh :: unit hetero_norm))
       = Inl (ValueError single_element_message)"
    by (simp add: HeteroNorm_init_def lower_LayerNORM)
  from init_ValueError_iff [of module_namespace 8 "''LayerNORM''" example_metadata default_eps
      default_momentum True False True "fresh :: unit hetero_norm" "''layernorm''"] c m v
  show ?thesis by (simp add: lower_LayerNORM)
qed

text \<open>
  C5. The constructor validates before it constructs: when the arguments fail either
  check, the outcome is a \<open>ValueError\<close> and \<open>self\<close> is returned as it was received, with
  no attribute assigned and no sub-module built. This holds in every namespace, also
  in one where \<open>Linear\<close> or \<open>ToHeteroLinear\<close> is unbound: line 45 is not reached.
\<close>

theorem init_validates_before_constructing:
  assumes "\<not> passes_validation norm_type track_running_stats ase"
  shows "\<exists>msg. HeteroNorm_init g c norm_type md e mo af track_running_stats ase self
           = (Inl (ValueError msg), self)"
  using init_fails [OF assms] by blast

theorem init_validates_before_constructing_witness:
  "\<not> passes_validation ''GroupNorm'' True False \<and>
   \<not> passes_validation ''BatchNorm'' False True \<and>
   (\<exists>msg. HeteroNorm_init module_namespace 4 ''GroupNorm'' example_metadata default_eps
            default_momentum True True False (fresh :: unit hetero_norm)
          = (Inl (ValueError msg), fresh)) \<and>
   (\<exists>msg. HeteroNorm_init (''Linear'' # module_namespace) 4 ''BatchNorm'' example_metadata
            default_eps default_momentum True False True (fresh :: unit hetero_norm)
          = (Inl (ValueError msg), fresh))"
proof -
  have a: "\<not> passes_validation ''GroupNorm'' True False"
    by (simp add: passes_validation_def lower_GroupNorm)
  have b: "\<not> passes_validation ''BatchNorm'' False True"
    by (simp add: passes_validation_def)
  show ?thesis
    using a b init_validates_before_constructing [OF a] init_validates_before_constructing [OF b]
    by blast
qed

text \<open>
  C9. The arguments \<open>norm_type\<close>, \<open>eps\<close>, \<open>momentum\<close>, \<open>affine\<close> and
  \<open>track_running_stats\<close> influence only validation: two calls that pass validation and
  agree on \<open>in_channels\<close>, \<open>metadata\<close> and \<open>allow_single_element\<close> have the same outcome
  and leave the same instance, on which \<open>forward\<close> behaves the same for every input.
\<close>

theorem init_ignores_normalization_arguments:
  assumes "passes_validation norm_type1 track_running_stats1 ase"
    and "passes_validation norm_type2 track_running_stats2 ase"
  shows "HeteroNorm_init g c norm_type1 md e1 mo1 af1 track_running_stats1 ase self
         = HeteroNorm_init g c norm_type2 md e2 mo2 af2 track_running_stats2 ase self
       \<and> forward g' (snd (HeteroNorm_init g c norm_type1 md e1 mo1 af1
                            track_running_stats1 ase self)) x
         = forward g' (snd (HeteroNorm_init g c norm_type2 md e2 mo2 af2
                              track_running_stats2 ase self)) x"
  by (simp add: init_passes [OF assms(1)] init_passes [OF assms(2)])

theorem init_ignores_normalization_arguments_witness:
  "passes_validation ''BatchNorm'' True True
   \<and> passes_validation ''LayerNORM'' True True
   \<and> HeteroNorm_init (''Linear'' # module_namespace) 4 ''LayerNORM'' example_metadata
        (PyFloat 1 (- 3)) (PyFloat 1 (- 1)) False True True fresh
     = (Inr (), constructed)"
proof -
  have a: "passes_validation ''BatchNorm'' True True"
    by (simp add: passes_validation_def lower_BatchNorm)
  have b: "passes_validation ''LayerNORM'' True True"
    by (simp add: passes_validation_def lower_LayerNORM)
  from init_ignores_normalization_arguments [OF a b, of "''Linear'' # module_namespace" 4
      example_metadata default_eps default_momentum True "fresh :: unit hetero_norm"
      "PyFloat 1 (- 3)" "PyFloat 1 (- 1)" False] a b init_constructed
  show ?thesis by simp
qed

subsection \<open>The attribute \<open>module\<close>\<close>

text \<open>
  C7. No code path of the class assigns \<open>self.module\<close>: whatever the arguments and the
  namespace, and whether the constructor returns or raises, the instance it leaves has
  no attribute \<open>module\<close>. So \<open>reset_parameters\<close> and \<open>__repr__\<close> raise
  \<open>AttributeError\<close>, and so does \<open>forward\<close> whenever the condition of line 57 is false
  and line 68 runs.
\<close>

theorem module_never_assigned:
  fixes self :: "'d hetero_norm"
  assumes "HeteroNorm_init g c norm_type md e mo af track_running_stats ase fresh = (r, self)"
  shows "module self = None
       \<and> reset_parameters self = Inl (AttributeError ''module'')
       \<and> repr self = Inl (AttributeError ''module'')
       \<and> (forward_guard self x = Inr False
            \<longrightarrow> forward g' self x = Inl (AttributeError ''module''))"
proof -
  have "module (snd (HeteroNorm_init g c norm_type md e mo af track_running_stats ase
                       (fresh :: 'd hetero_norm))) = None"
    by (simp add: init_module_unchanged) (simp add: fresh_def)
  with assms have "module self = None" by simp
  then show ?thesis
    by (simp add: reset_parameters_def repr_def forward_def module_branch_def getattr_None)
qed

theorem module_never_assigned_witness:
  "HeteroNorm_init (''Linear'' # module_namespace) 4 ''BatchNorm'' example_metadata default_eps
     default_momentum True True True fresh = (Inr (), constructed)
   \<and> forward_guard constructed \<lparr>shape = [3, 4], payload = ()\<rparr> = Inr False
   \<and> reset_parameters constructed = Inl (AttributeError ''module'')
   \<and> repr constructed = Inl (AttributeError ''module'')
   \<and> forward (''Linear'' # module_namespace) constructed \<lparr>shape = [3, 4], payload = ()\<rparr>
       = Inl (AttributeError ''module'')"
proof -
  have gd: "forward_guard constructed \<lparr>shape = [3, 4], payload = ()\<rparr> = Inr False"
    by (simp add: forward_guard_def getattr_Some size0_def constructed_def)
  from module_never_assigned [OF init_constructed, of "\<lparr>shape = [3, 4], payload = ()\<rparr>"
      "''Linear'' # module_namespace"] init_constructed gd
  show ?thesis by simp
qed

subsection \<open>The condition of \<open>forward\<close>\<close>

text \<open>
  C8. With \<open>allow_single_element\<close> true, an empty batch takes the single-element case:
  for \<open>x.size(0) = 0\<close> the condition of line 57 is true and \<open>forward\<close> is the branch of
  lines 58 to 67, the call of \<open>batch_norm\<close> on the stored statistics.
\<close>

theorem empty_batch_takes_single_element_branch:
  assumes "allow_single_element self = Some True" and "size0 x = Inr 0"
  shows "forward_guard self x = Inr True \<and> forward g self x = batch_norm_branch g self x"
  using assms by (simp add: forward_def forward_guard_def getattr_Some)

theorem empty_batch_takes_single_element_branch_witness:
  "allow_single_element (constructed\<lparr>module := Some example_module\<rparr>) = Some True
   \<and> size0 \<lparr>shape = [0, 4], payload = ()\<rparr> = Inr 0
   \<and> forward module_namespace (constructed\<lparr>module := Some example_module\<rparr>)
       \<lparr>shape = [0, 4], payload = ()\<rparr>
     = Inr (F_batch_norm \<lparr>shape = [0, 4], payload = ()\<rparr>
             (running_mean example_module) (running_var example_module)
             (weight example_module) (bias example_module) False (PyFloat 0 0)
             (eps example_module))"
proof -
  have a: "allow_single_element (constructed\<lparr>module := Some example_module\<rparr>) = Some True"
    by (simp add: constructed_def)
  have b: "size0 \<lparr>shape = [0, 4], payload = ()\<rparr> = Inr 0"
    by (simp add: size0_def)
  from empty_batch_takes_single_element_branch [OF a b, of module_namespace] a b
  show ?thesis
    by (simp add: batch_norm_branch_def lookup_name_def module_namespace_def getattr_Some)
qed

subsection \<open>Where the code departs from its documentation\<close>

text \<open>
  C2. Line 45 calls \<open>Linear\<close>, a name that the file never imports. In the module's own
  namespace a call with valid arguments assigns \<open>in_channels\<close> and then raises
  \<open>NameError\<close>: \<open>hetero_linear\<close> and \<open>allow_single_element\<close> are never assigned and the
  construction does not succeed.
\<close>

theorem init_raises_NameError:
  "HeteroNorm_init module_namespace 4 ''BatchNorm'' example_metadata default_eps
     default_momentum True True False (fresh :: unit hetero_norm)
   = (Inl (NameError ''Linear''),
      \<lparr>in_channels = Some 4, hetero_linear = None, allow_single_element = None,
       module = None\<rparr>)"
  by (simp add: HeteroNorm_init_def lower_BatchNorm lookup_name_def module_namespace_def
      fresh_def)

text \<open>
  C1. On the instance that the constructor leaves once \<open>Linear\<close> resolves, \<open>forward\<close>
  returns neither the result of \<open>batch_norm\<close> nor that of the wrapped sub-module: with
  one row the condition of line 57 is true, with three rows it is false, and both
  branches raise \<open>AttributeError\<close> on \<open>self.module\<close>.
\<close>

theorem forward_raises_in_both_branches:
  "forward (''Linear'' # module_namespace) constructed \<lparr>shape = [1, 4], payload = ()\<rparr>
     = Inl (AttributeError ''module'')
   \<and> forward (''Linear'' # module_namespace) constructed \<lparr>shape = [3, 4], payload = ()\<rparr>
     = Inl (AttributeError ''module'')"
  by (simp add: forward_def forward_guard_def batch_norm_branch_def module_branch_def
      getattr_def size0_def lookup_name_def module_namespace_def constructed_def)

text \<open>
  C4. In the single-element case, for a batch of one row and for an empty one, the
  branch of lines 58 to 67 is selected and stops at the first read of \<open>self.module\<close>:
  the call of \<open>batch_norm\<close> is not made and no statistics are read.
\<close>

theorem single_element_case_makes_no_call:
  "forward_guard constructed \<lparr>shape = [1, 4], payload = ()\<rparr> = Inr True
   \<and> batch_norm_branch module_namespace constructed \<lparr>shape = [1, 4], payload = ()\<rparr>
     = Inl (AttributeError ''module'')
   \<and> forward_guard constructed \<lparr>shape = [0, 4], payload = ()\<rparr> = Inr True
   \<and> batch_norm_branch module_namespace constructed \<lparr>shape = [0, 4], payload = ()\<rparr>
     = Inl (AttributeError ''module'')"
  by (simp add: forward_guard_def batch_norm_branch_def getattr_def size0_def
      lookup_name_def module_namespace_def constructed_def)

text \<open>
  C6. \<open>forward\<close> does not go through the dispatcher that the constructor stores under
  \<open>hetero_linear\<close>. Even on an instance whose \<open>module\<close> has been assigned from outside,
  the call goes to that one module for the whole input, and the result is the same
  with the dispatcher removed.
\<close>

theorem forward_bypasses_hetero_linear:
  "forward module_namespace
       (constructed\<lparr>allow_single_element := Some False, module := Some example_module\<rparr>)
       \<lparr>shape = [3, 4], payload = ()\<rparr>
     = Inr (Module_call example_module \<lparr>shape = [3, 4], payload = ()\<rparr>)
   \<and> forward module_namespace
       (constructed\<lparr>hetero_linear := None, allow_single_element := Some False,
                     module := Some example_module\<rparr>)
       \<lparr>shape = [3, 4], payload = ()\<rparr>
     = Inr (Module_call example_module \<lparr>shape = [3, 4], payload = ()\<rparr>)"
  by (simp add: forward_def forward_guard_def module_branch_def getattr_def constructed_def)

end
